theory Spec2Isabelle
  imports Complex_Main "HOL-Library.Multiset" "HOL-Library.Product_Lexorder"
begin

chapter \<open>The embedding\<close>

section \<open>Conventions of the embedding\<close>

text \<open>
  The development embeds the gene-selection statistics of
  \<^verbatim>\<open>dynamo/preprocessing/gene_selection.py\<close> and the topology-representing-network
  sampler of \<^verbatim>\<open>dynamo/tools/sampling.py\<close>.

  Numbers: a NumPy float is idealised. Where the source only handles finite numbers
  (the entries of an expression matrix, point coordinates) it is a \<^typ>\<open>real\<close>
  and arithmetic is exact. Where the source itself produces and tests not-a-number or
  infinite values (\<^verbatim>\<open>fillna\<close>, \<^verbatim>\<open>isnull\<close>, \<^verbatim>\<open>np.isnan\<close>,
  division by a zero mean) it is an \<open>npfloat\<close>: a real, one of the two infinities or NaN,
  with the IEEE rules for them. Rounding, overflow and the sign of zero are not modelled.

  Exceptions are values of the type \<open>error\<close>; a function that can raise returns
  \<open>error + 'a\<close>. Library routines the repository calls but does not contain (the
  gamma GLM, the support-vector regression, \<^verbatim>\<open>pandas.cut\<close>, the random generator,
  the nearest-neighbour search) are parameters of the functions that call them.
\<close>

datatype error =
    ValueError
  | KeyError
  | IndexError
  | AttributeError
  | ZeroDivisionError
  | NotImplementedError
  | Exception_raised string

section \<open>Gini coefficient per gene (\<^verbatim>\<open>Gini\<close>, \<^verbatim>\<open>compute_gini\<close>)\<close>

text \<open>
  A matrix is its list of rows (cells); a NumPy array is rectangular, so every row has the
  length of the first. The constructor records whether the object held by the annotated
  matrix is a dense array or a SciPy sparse matrix (whose entries are listed the same way).
\<close>

datatype matrix = Dense "real list list" | Sparse "real list list"

definition entries :: "matrix \<Rightarrow> real list list" where
  "entries CM = (case CM of Dense rows \<Rightarrow> rows | Sparse rows \<Rightarrow> rows)"

definition n_vars :: "real list list \<Rightarrow> nat" where
  "n_vars rows = (case rows of [] \<Rightarrow> 0 | r # _ \<Rightarrow> length r)"

definition rectangular :: "real list list \<Rightarrow> bool" where
  "rectangular rows = list_all (\<lambda>r. length r = n_vars rows) rows"

definition column :: "real list list \<Rightarrow> nat \<Rightarrow> real list" where
  "column rows j = map (\<lambda>r. r ! j) rows"

text \<open>\<^verbatim>\<open>np.min(CM)\<close>: the minimum over all entries; a zero-size array raises.\<close>

definition np_min :: "real list list \<Rightarrow> error + real" where
  "np_min rows =
     (case concat rows of [] \<Rightarrow> Inl ValueError | x # xs \<Rightarrow> Inr (fold min xs x))"

text \<open>\<^verbatim>\<open>index = 2 * np.arange(1, n + 1) - n - 1\<close>\<close>

definition gini_index :: "nat \<Rightarrow> real list" where
  "gini_index n = map (\<lambda>i. 2 * real i - real n - 1) [1..<n + 1]"

definition gini_of_column :: "nat \<Rightarrow> real list \<Rightarrow> real" where
  "gini_of_column n col =
     sum_list (map (\<lambda>(i, x). i * x) (zip (gini_index n) col)) / (real n * sum_list col)"

text \<open>
  \<^verbatim>\<open>compute_gini(CM)\<close>. A sparse argument is first replaced by a dense copy
  (\<^verbatim>\<open>CM = CM.A\<close>); a dense argument is the caller's own array, and
  \<^verbatim>\<open>CM -= np.min(CM)\<close> subtracts in place. The later
  \<^verbatim>\<open>CM.astype(float) + 0.0000001\<close> and \<^verbatim>\<open>np.sort(CM, axis=0)\<close> build new
  arrays. The result is the Gini vector together with the caller's matrix object as the
  call leaves it.
\<close>

definition compute_gini :: "matrix \<Rightarrow> error + (real list \<times> matrix)" where
  "compute_gini CM =
     (case np_min (entries CM) of
        Inl e \<Rightarrow> Inl e
      | Inr m \<Rightarrow>
          (let shifted = map (map (\<lambda>x. x - m)) (entries CM);
               CM_left = (case CM of Dense _ \<Rightarrow> Dense shifted | Sparse rows \<Rightarrow> Sparse rows);
               CM1 = map (map (\<lambda>x. x + 1 / 10 ^ 7)) shifted;
               CM2 = map (\<lambda>j. sort (column CM1 j)) [0..<n_vars CM1];
               n = length CM1
           in Inr (map (gini_of_column n) CM2, CM_left)))"

text \<open>
  The annotated matrix, as far as \<^verbatim>\<open>Gini\<close> reads and writes it: \<^verbatim>\<open>adata.X\<close>,
  \<^verbatim>\<open>adata.raw.X\<close> (absent when \<^verbatim>\<open>adata.raw\<close> is \<^verbatim>\<open>None\<close>),
  \<^verbatim>\<open>adata.layers\<close>, \<^verbatim>\<open>adata.obsm\<close> and the numeric columns of
  \<^verbatim>\<open>adata.var\<close>. Distinct keys hold distinct array objects.
\<close>

record adata =
  X :: matrix
  raw_X :: "matrix option"
  layers :: "string \<rightharpoonup> matrix"
  obsm :: "string \<rightharpoonup> matrix"
  var :: "string \<rightharpoonup> real list"

text \<open>
  One pass of the loop \<^verbatim>\<open>for layer in layers\<close> of \<^verbatim>\<open>Gini\<close>. The list of layer
  keys is what \<^verbatim>\<open>DKM.get_available_layer_keys(adata, layers)\<close> returned (that helper
  is not part of the sources). The matrix of a layer is taken to have one column per gene of
  \<^verbatim>\<open>adata.var\<close>; the length check of the assignment \<^verbatim>\<open>adata.var[...] = var_gini\<close>,
  which raises for a matrix of another width (possible for \<^verbatim>\<open>raw\<close> and
  \<^verbatim>\<open>protein\<close>), is not modelled.
\<close>

definition Gini_layer :: "adata \<Rightarrow> string \<Rightarrow> error + adata" where
  "Gini_layer a layer =
     (if layer = ''raw'' then
        (case raw_X a of
           None \<Rightarrow> Inl AttributeError
         | Some CM \<Rightarrow>
            (case compute_gini CM of
               Inl e \<Rightarrow> Inl e
             | Inr (g, CM') \<Rightarrow>
                 Inr (a\<lparr>raw_X := Some CM', var := (var a)(layer @ ''_gini'' \<mapsto> g)\<rparr>)))
      else if layer = ''X'' then
        (case compute_gini (X a) of
           Inl e \<Rightarrow> Inl e
         | Inr (g, CM') \<Rightarrow> Inr (a\<lparr>X := CM', var := (var a)(layer @ ''_gini'' \<mapsto> g)\<rparr>))
      else if layer = ''protein'' then
        (case obsm a ''protein'' of
           None \<Rightarrow> Inr a
         | Some CM \<Rightarrow>
            (case compute_gini CM of
               Inl e \<Rightarrow> Inl e
             | Inr (g, CM') \<Rightarrow>
                 Inr (a\<lparr>obsm := (obsm a)(layer \<mapsto> CM'),
                        var := (var a)(layer @ ''_gini'' \<mapsto> g)\<rparr>)))
      else
        (case layers a layer of
           None \<Rightarrow> Inl KeyError
         | Some CM \<Rightarrow>
            (case compute_gini CM of
               Inl e \<Rightarrow> Inl e
             | Inr (g, CM') \<Rightarrow>
                 Inr (a\<lparr>layers := (layers a)(layer \<mapsto> CM'),
                        var := (var a)(layer @ ''_gini'' \<mapsto> g)\<rparr>))))"

fun Gini :: "adata \<Rightarrow> string list \<Rightarrow> error + adata" where
  "Gini a [] = Inr a"
| "Gini a (layer # ls) =
     (case Gini_layer a layer of Inl e \<Rightarrow> Inl e | Inr a' \<Rightarrow> Gini a' ls)"

section \<open>NumPy floats with NaN and infinities\<close>

datatype npfloat = NaN | NInf | Fin real | PInf

fun np_isnan :: "npfloat \<Rightarrow> bool" where
  "np_isnan NaN = True"
| "np_isnan _ = False"

fun np_neg :: "npfloat \<Rightarrow> npfloat" where
  "np_neg NaN = NaN"
| "np_neg NInf = PInf"
| "np_neg (Fin x) = Fin (- x)"
| "np_neg PInf = NInf"

fun np_add :: "npfloat \<Rightarrow> npfloat \<Rightarrow> npfloat" where
  "np_add NaN _ = NaN"
| "np_add _ NaN = NaN"
| "np_add (Fin x) (Fin y) = Fin (x + y)"
| "np_add PInf NInf = NaN"
| "np_add NInf PInf = NaN"
| "np_add PInf _ = PInf"
| "np_add _ PInf = PInf"
| "np_add NInf _ = NInf"
| "np_add _ NInf = NInf"

definition np_sub :: "npfloat \<Rightarrow> npfloat \<Rightarrow> npfloat" where
  "np_sub a b = np_add a (np_neg b)"

text \<open>The infinity with the sign of \<open>x\<close>, for \<open>x\<close> other than 0.\<close>

definition inf_with_sign :: "real \<Rightarrow> npfloat" where
  "inf_with_sign x = (if 0 < x then PInf else NInf)"

fun np_mul :: "npfloat \<Rightarrow> npfloat \<Rightarrow> npfloat" where
  "np_mul NaN _ = NaN"
| "np_mul _ NaN = NaN"
| "np_mul (Fin x) (Fin y) = Fin (x * y)"
| "np_mul (Fin x) PInf = (if x = 0 then NaN else inf_with_sign x)"
| "np_mul (Fin x) NInf = (if x = 0 then NaN else inf_with_sign (- x))"
| "np_mul PInf (Fin y) = (if y = 0 then NaN else inf_with_sign y)"
| "np_mul NInf (Fin y) = (if y = 0 then NaN else inf_with_sign (- y))"
| "np_mul PInf PInf = PInf"
| "np_mul NInf NInf = PInf"
| "np_mul PInf NInf = NInf"
| "np_mul NInf PInf = NInf"

text \<open>
  Division of arrays never raises: a nonzero number over zero is an infinity, zero over zero
  and infinity over infinity are NaN. The zero divisor is taken as positive.
\<close>

fun np_div :: "npfloat \<Rightarrow> npfloat \<Rightarrow> npfloat" where
  "np_div NaN _ = NaN"
| "np_div _ NaN = NaN"
| "np_div (Fin x) (Fin y) =
     (if y = 0 then (if x = 0 then NaN else inf_with_sign x) else Fin (x / y))"
| "np_div (Fin x) PInf = Fin 0"
| "np_div (Fin x) NInf = Fin 0"
| "np_div PInf (Fin y) = (if 0 \<le> y then PInf else NInf)"
| "np_div NInf (Fin y) = (if 0 \<le> y then NInf else PInf)"
| "np_div PInf PInf = NaN"
| "np_div PInf NInf = NaN"
| "np_div NInf PInf = NaN"
| "np_div NInf NInf = NaN"

fun np_log :: "npfloat \<Rightarrow> npfloat" where
  "np_log NaN = NaN"
| "np_log NInf = NaN"
| "np_log (Fin x) = (if 0 < x then Fin (ln x) else if x = 0 then NInf else NaN)"
| "np_log PInf = PInf"

fun np_log1p :: "npfloat \<Rightarrow> npfloat" where
  "np_log1p NaN = NaN"
| "np_log1p NInf = NaN"
| "np_log1p (Fin x) = (if - 1 < x then Fin (ln (1 + x)) else if x = - 1 then NInf else NaN)"
| "np_log1p PInf = PInf"

fun np_log2 :: "npfloat \<Rightarrow> npfloat" where
  "np_log2 NaN = NaN"
| "np_log2 NInf = NaN"
| "np_log2 (Fin x) = (if 0 < x then Fin (log 2 x) else if x = 0 then NInf else NaN)"
| "np_log2 PInf = PInf"

fun np_sqrt :: "npfloat \<Rightarrow> npfloat" where
  "np_sqrt NaN = NaN"
| "np_sqrt NInf = NaN"
| "np_sqrt (Fin x) = (if 0 \<le> x then Fin (sqrt x) else NaN)"
| "np_sqrt PInf = PInf"

text \<open>Comparisons: every comparison with NaN is false, except \<^verbatim>\<open>!=\<close>, which is true.\<close>

fun np_lt :: "npfloat \<Rightarrow> npfloat \<Rightarrow> bool" where
  "np_lt NaN _ = False"
| "np_lt _ NaN = False"
| "np_lt (Fin x) (Fin y) = (x < y)"
| "np_lt _ NInf = False"
| "np_lt NInf _ = True"
| "np_lt PInf _ = False"
| "np_lt _ PInf = True"

definition np_gt :: "npfloat \<Rightarrow> npfloat \<Rightarrow> bool" where
  "np_gt a b = np_lt b a"

definition np_eq :: "npfloat \<Rightarrow> npfloat \<Rightarrow> bool" where
  "np_eq a b = (\<not> np_isnan a \<and> a = b)"

definition np_ne :: "npfloat \<Rightarrow> npfloat \<Rightarrow> bool" where
  "np_ne a b = (\<not> np_eq a b)"

definition np_ge :: "npfloat \<Rightarrow> npfloat \<Rightarrow> bool" where
  "np_ge a b = (np_lt b a \<or> np_eq a b)"

definition np_le :: "npfloat \<Rightarrow> npfloat \<Rightarrow> bool" where
  "np_le a b = np_ge b a"

text \<open>\<^verbatim>\<open>np.sum\<close> of a Boolean array counts its true entries.\<close>

definition np_sum_bool :: "bool list \<Rightarrow> nat" where
  "np_sum_bool bs = length (filter (\<lambda>b. b) bs)"

section \<open>Parametric dispersion fit (\<^verbatim>\<open>parametric_dispersion_fit\<close>)\<close>

text \<open>A row of the dispersion table: the columns \<^verbatim>\<open>mu\<close>, \<^verbatim>\<open>disp\<close>, \<^verbatim>\<open>gene_id\<close>.\<close>

record disp_row =
  mu :: npfloat
  disp :: npfloat
  gene_id :: string

text \<open>
  The coefficient vector \<^verbatim>\<open>coefs\<close> has two entries (intercept and slope of
  \<^verbatim>\<open>disp ~ I(1 / mu)\<close>). The gamma GLM of statsmodels, called as
  \<^verbatim>\<open>sm.formula.glm(..., data=good, family=...).train(start_params=coefs)\<close>, is a
  parameter: from the rows it is trained on and the start parameters it returns the fitted
  parameters, or raises.
\<close>

type_synonym coefs = "npfloat \<times> npfloat"
type_synonym glm = "disp_row list \<Rightarrow> coefs \<Rightarrow> error + coefs"

text \<open>What the function does besides returning: calls of the GLM and logged warnings.\<close>

datatype event = GLM_fit | Warning string

text \<open>
  \<^verbatim>\<open>residuals = disp_table["disp"] / (coefs[0] + coefs[1] / disp_table["mu"])\<close> and
  \<^verbatim>\<open>good = disp_table.loc[(residuals > initial_coefs[0]) & (residuals < 10000), :]\<close>
\<close>

definition residual :: "coefs \<Rightarrow> disp_row \<Rightarrow> npfloat" where
  "residual c r = np_div (disp r) (np_add (fst c) (np_div (snd c) (mu r)))"

definition good_rows :: "coefs \<Rightarrow> coefs \<Rightarrow> disp_row list \<Rightarrow> disp_row list" where
  "good_rows initial_coefs c disp_table =
     filter (\<lambda>r. np_gt (residual c r) (fst initial_coefs) \<and> np_lt (residual c r) (Fin 10000))
       disp_table"

text \<open>
  The test of the source, \<^verbatim>\<open>if np.sum(np.log(coefs / oldcoefs) ** 2 < coefs[0]): break\<close>.
  The comparison is inside the call of \<^verbatim>\<open>np.sum\<close>: each squared log-ratio is compared
  with \<^verbatim>\<open>coefs[0]\<close> and the true entries are counted.
\<close>

definition log_ratio_sq :: "npfloat \<Rightarrow> npfloat \<Rightarrow> npfloat" where
  "log_ratio_sq new old = (let l = np_log (np_div new old) in np_mul l l)"

definition converged :: "coefs \<Rightarrow> coefs \<Rightarrow> bool" where
  "converged c oldcoefs =
     (np_sum_bool [np_lt (log_ratio_sq (fst c) (fst oldcoefs)) (fst c),
                   np_lt (log_ratio_sq (snd c) (snd oldcoefs)) (fst c)] \<noteq> 0)"

text \<open>
  The test as the specification words it, for comparison:
  \<^verbatim>\<open>sum((log(new_coef/old_coef))^2) < a\<close>.
\<close>

definition spec_converged :: "coefs \<Rightarrow> coefs \<Rightarrow> bool" where
  "spec_converged c oldcoefs =
     np_lt (np_add (log_ratio_sq (fst c) (fst oldcoefs)) (log_ratio_sq (snd c) (snd oldcoefs)))
       (fst c)"

text \<open>
  The body of \<^verbatim>\<open>while True\<close>, entered with the current \<^verbatim>\<open>coefs\<close>, the counter
  \<^verbatim>\<open>iter\<close> and the events so far. The result is \<^verbatim>\<open>(coefs, good)\<close> of the returned
  triple (the fit object's parameters are \<^verbatim>\<open>coefs\<close> itself, clamped in place) and the
  events.
\<close>

function fit_loop ::
  "glm \<Rightarrow> disp_row list \<Rightarrow> coefs \<Rightarrow> coefs \<Rightarrow> nat \<Rightarrow> event list
     \<Rightarrow> error + (coefs \<times> disp_row list \<times> event list)" where
  "fit_loop fit_glm disp_table initial_coefs c iter tr =
     (let good = good_rows initial_coefs c disp_table in
      case fit_glm good c of
        Inl e \<Rightarrow> Inl e
      | Inr params \<Rightarrow>
          (let oldcoefs = c;
               c1 = (if np_lt (fst params) (fst initial_coefs)
                     then (fst initial_coefs, snd params) else params);
               tr1 = tr @ [GLM_fit] @
                     (if np_lt (snd c1) (Fin 0)
                      then [Warning ''Parametric dispersion fit may be failed.''] else [])
           in if converged c1 oldcoefs then Inr (c1, good, tr1)
              else if iter + 1 > 10
                then Inr (c1, good, tr1 @ [Warning ''Dispersion fit didn't converge''])
              else fit_loop fit_glm disp_table initial_coefs c1 (iter + 1)
                     (tr1 @ (if \<not> (np_gt (fst c1) (Fin 0) \<and> np_gt (snd c1) (Fin 0))
                             then [Warning ''Parametric dispersion fit may be failed.'']
                             else []))))"
  by pat_completeness auto
termination
  by (relation "measure (\<lambda>(fit_glm, disp_table, initial_coefs, c, iter, tr). 11 - iter)") auto

declare fit_loop.simps [simp del]

definition parametric_dispersion_fit ::
  "glm \<Rightarrow> disp_row list \<Rightarrow> coefs \<Rightarrow> error + (coefs \<times> disp_row list \<times> event list)" where
  "parametric_dispersion_fit fit_glm disp_table initial_coefs =
     fit_loop fit_glm disp_table initial_coefs initial_coefs 0 []"

text \<open>The default \<^verbatim>\<open>initial_coefs = np.array([1e-6, 1])\<close>.\<close>

definition default_initial_coefs :: coefs where
  "default_initial_coefs = (Fin (1 / 10 ^ 6), Fin 1)"

section \<open>Dispersion estimation per layer (\<^verbatim>\<open>estimate_dispersion\<close>)\<close>

text \<open>
  The entry stored under \<^verbatim>\<open>adata.uns[key]\<close>: the table \<^verbatim>\<open>good\<close> and the
  coefficients; the stored function \<^verbatim>\<open>ans\<close> is \<open>disp_func\<close> of the coefficients.
\<close>

record fit_info =
  info_disp_table :: "disp_row list"
  info_coefs :: coefs

definition disp_func :: "coefs \<Rightarrow> npfloat \<Rightarrow> npfloat" where
  "disp_func c q = np_add (fst c) (np_div (snd c) q)"

text \<open>
  With \<^verbatim>\<open>removeOutliers\<close> the source computes Cook's distances (\<^verbatim>\<open>cook_dist\<close>, not
  part of the sources), marks the rows above \<^verbatim>\<open>4 / good.shape[0]\<close> and the lost genes, and
  keeps \<^verbatim>\<open>good.loc[~outliers, :]\<close>. That selection is a parameter: from the
  coefficients and \<^verbatim>\<open>good\<close> it gives the rows kept, or raises.
\<close>

type_synonym outlier_filter = "coefs \<Rightarrow> disp_row list \<Rightarrow> error + disp_row list"

definition uns_key :: "string \<Rightarrow> string" where
  "uns_key layer = (if layer = ''X'' then ''dispFitInfo'' else layer @ ''_dispFitInfo'')"

text \<open>
  The loop \<^verbatim>\<open>for ind in range(len(layers))\<close> over the layers and the tables that
  \<^verbatim>\<open>disp_calc_helper_NB\<close> returned for them. A table can be \<^verbatim>\<open>None\<close> as far as
  the check \<^verbatim>\<open>if disp_table is None\<close> is concerned. The selection
  \<^verbatim>\<open>disp_table.loc[np.where(disp_table["mu"] != np.nan)[0], :]\<close> compares every
  \<^verbatim>\<open>mu\<close> with NaN by \<^verbatim>\<open>!=\<close>. After an outlier refit only \<^verbatim>\<open>fit\<close> and
  \<^verbatim>\<open>coefs\<close> are replaced, \<^verbatim>\<open>good\<close> stays.
\<close>

fun estimate_dispersion ::
  "glm \<Rightarrow> outlier_filter \<Rightarrow> bool \<Rightarrow> (string \<times> disp_row list option) list
     \<Rightarrow> (string \<rightharpoonup> fit_info) \<Rightarrow> event list
     \<Rightarrow> error + ((string \<rightharpoonup> fit_info) \<times> event list)" where
  "estimate_dispersion fit_glm keep_rows removeOutliers [] uns tr = Inr (uns, tr)"
| "estimate_dispersion fit_glm keep_rows removeOutliers ((layer, table) # rest) uns tr =
     (case table of
        None \<Rightarrow>
          Inl (Exception_raised
            ''Parametric dispersion fitting failed, please set a different lowerDetectionLimit'')
      | Some t \<Rightarrow>
          (let t1 = filter (\<lambda>r. np_ne (mu r) NaN) t in
           case parametric_dispersion_fit fit_glm t1 default_initial_coefs of
             Inl e \<Rightarrow> Inl e
           | Inr (c, good, tr1) \<Rightarrow>
               (if removeOutliers then
                  (case keep_rows c good of
                     Inl e \<Rightarrow> Inl e
                   | Inr kept \<Rightarrow>
                       (case parametric_dispersion_fit fit_glm kept default_initial_coefs of
                          Inl e \<Rightarrow> Inl e
                        | Inr (c2, good2, tr2) \<Rightarrow>
                            estimate_dispersion fit_glm keep_rows removeOutliers rest
                              (uns(uns_key layer \<mapsto> \<lparr>info_disp_table = good, info_coefs = c2\<rparr>))
                              (tr @ tr1 @ tr2)))
                else
                  estimate_dispersion fit_glm keep_rows removeOutliers rest
                    (uns(uns_key layer \<mapsto> \<lparr>info_disp_table = good, info_coefs = c\<rparr>))
                    (tr @ tr1))))"

section \<open>Seurat binned dispersion (\<^verbatim>\<open>select_genes_by_seurat_dispersion\<close>)\<close>

definition np_sum :: "npfloat list \<Rightarrow> npfloat" where
  "np_sum xs = foldl np_add (Fin 0) xs"

text \<open>
  The group statistics of pandas skip NaN: \<^verbatim>\<open>mean()\<close> of a group is the mean of its
  numbers (NaN when it has none), \<^verbatim>\<open>std(ddof=1)\<close> is NaN when the group has fewer than
  two numbers.
\<close>

definition group_mean :: "npfloat list \<Rightarrow> npfloat" where
  "group_mean vs =
     (let xs = filter (\<lambda>v. \<not> np_isnan v) vs
      in if xs = [] then NaN else np_div (np_sum xs) (Fin (real (length xs))))"

definition group_std :: "npfloat list \<Rightarrow> npfloat" where
  "group_std vs =
     (let xs = filter (\<lambda>v. \<not> np_isnan v) vs
      in if length xs < 2 then NaN
         else (let m = np_div (np_sum xs) (Fin (real (length xs)))
               in np_sqrt (np_div (np_sum (map (\<lambda>v. np_mul (np_sub v m) (np_sub v m)) xs))
                                  (Fin (real (length xs - 1))))))"


text \<open>
  The input is the list of the per-gene pairs (mean, variance) that
  \<^verbatim>\<open>seurat_get_mean_var\<close> (not part of the sources) computed from the matrix.
  \<open>seurat_mean\<close> and \<open>seurat_dispersion\<close> are the columns \<^verbatim>\<open>temp_df["mean"]\<close> and
  \<^verbatim>\<open>temp_df["dispersion"]\<close>.
\<close>

definition seurat_mean :: "(npfloat \<times> npfloat) list \<Rightarrow> bool \<Rightarrow> npfloat list" where
  "seurat_mean stats log_mean_and_dispersion =
     map (\<lambda>(m, v). if log_mean_and_dispersion then np_log1p m else m) stats"

definition seurat_dispersion :: "(npfloat \<times> npfloat) list \<Rightarrow> bool \<Rightarrow> npfloat list" where
  "seurat_dispersion stats log_mean_and_dispersion =
     map (\<lambda>(m, v). let d = np_div v m
                   in if log_mean_and_dispersion
                      then np_log (if np_eq d (Fin 0) then NaN else d) else d) stats"

text \<open>The dispersions of the genes that share the bin of gene \<open>g\<close>.\<close>

definition bin_group :: "(nat \<Rightarrow> nat) \<Rightarrow> npfloat list \<Rightarrow> nat \<Rightarrow> npfloat list" where
  "bin_group bin dispersion g =
     map (\<lambda>h. dispersion ! h) (filter (\<lambda>h. bin h = bin g) [0..<length dispersion])"

text \<open>
  \<^verbatim>\<open>disp_mean_bin\<close> and \<^verbatim>\<open>disp_std_bin\<close> at the bin of gene \<open>g\<close>, after the backfill
  \<^verbatim>\<open>disp_std_bin[one_gene_per_bin] = disp_mean_bin[one_gene_per_bin].values\<close>,
  \<^verbatim>\<open>disp_mean_bin[one_gene_per_bin] = 0\<close>, where \<^verbatim>\<open>one_gene_per_bin\<close> is
  \<^verbatim>\<open>disp_std_bin.isnull()\<close>.
\<close>

definition disp_mean_bin :: "(nat \<Rightarrow> nat) \<Rightarrow> npfloat list \<Rightarrow> nat \<Rightarrow> npfloat" where
  "disp_mean_bin bin dispersion g =
     (if np_isnan (group_std (bin_group bin dispersion g)) then Fin 0
      else group_mean (bin_group bin dispersion g))"

definition disp_std_bin :: "(nat \<Rightarrow> nat) \<Rightarrow> npfloat list \<Rightarrow> nat \<Rightarrow> npfloat" where
  "disp_std_bin bin dispersion g =
     (if np_isnan (group_std (bin_group bin dispersion g))
      then group_mean (bin_group bin dispersion g)
      else group_std (bin_group bin dispersion g))"

definition fillna0 :: "npfloat \<Rightarrow> npfloat" where
  "fillna0 x = (if np_isnan x then Fin 0 else x)"

text \<open>\<^verbatim>\<open>temp_df["dispersion_norm"] = ((temp_df["dispersion"] - mean) / std).fillna(0)\<close>\<close>

definition seurat_dispersion_norm :: "(nat \<Rightarrow> nat) \<Rightarrow> npfloat list \<Rightarrow> npfloat list" where
  "seurat_dispersion_norm bin dispersion =
     map (\<lambda>g. fillna0 (np_div (np_sub (dispersion ! g) (disp_mean_bin bin dispersion g))
                               (disp_std_bin bin dispersion g)))
       [0..<length dispersion]"

text \<open>
  The order in which values are sorted: the infinities at the ends; NaN (which
  \<^verbatim>\<open>nlargest\<close> drops) has no place of its own and is given the last.
\<close>

fun np_key :: "npfloat \<Rightarrow> int \<times> real" where
  "np_key NInf = (- 1, 0)"
| "np_key (Fin x) = (0, x)"
| "np_key PInf = (1, 0)"
| "np_key NaN = (2, 0)"




section \<open>Top genes by SVR score (\<^verbatim>\<open>get_highly_variable_mask_by_dispersion_svr\<close>)\<close>

text \<open>
  The support-vector regression of scikit-learn is a parameter: \<^verbatim>\<open>SVR(gamma)\<close> fitted
  on the pairs (input, target) and then asked to predict at the same inputs, as the source
  does; it gives the predictions or raises.
\<close>

type_synonym svr = "real \<Rightarrow> (npfloat \<times> npfloat) list \<Rightarrow> error + npfloat list"

text \<open>
  \<^verbatim>\<open>scores = np.repeat(np.nan, n); scores[~is_nan_indices] = values\<close>: the values go to
  the positions that are not marked, in order.
\<close>

fun scatter :: "bool list \<Rightarrow> npfloat list \<Rightarrow> npfloat list" where
  "scatter [] vals = []"
| "scatter (True # marks) vals = NaN # scatter marks vals"
| "scatter (False # marks) [] = NaN # scatter marks []"
| "scatter (False # marks) (v # vals) = v # scatter marks vals"

text \<open>Indexing with a Python integer: a negative index counts from the end.\<close>

definition py_index :: "'a list \<Rightarrow> int \<Rightarrow> error + 'a" where
  "py_index xs i =
     (if 0 \<le> i \<and> i < int (length xs) then Inr (xs ! nat i)
      else if i < 0 \<and> - int (length xs) \<le> i then Inr (xs ! nat (int (length xs) + i))
      else Inl IndexError)"

text \<open>
  The input is the list of the per-gene pairs (mean, variance). The scores are reshaped to
  \<open>n \<times> 1\<close>, a list of rows of one entry each; \<^verbatim>\<open>np.sort\<close> sorts along the last axis,
  that is inside each row; \<^verbatim>\<open>[n_top_genes - 1]\<close> selects a row; the comparison
  \<^verbatim>\<open>scores >= score_threshold\<close> broadcasts that row against every row. The result is
  the flattened mask, the scores and the warnings.
\<close>

definition get_highly_variable_mask_by_dispersion_svr ::
  "svr \<Rightarrow> (npfloat \<times> npfloat) list \<Rightarrow> int \<Rightarrow> real option
     \<Rightarrow> error + (bool list \<times> npfloat list \<times> event list)" where
  "get_highly_variable_mask_by_dispersion_svr regress stats n_top_genes svr_gamma =
     (if svr_gamma = None \<and> stats = [] then Inl ZeroDivisionError
      else
        (let gamma = (case svr_gamma of None \<Rightarrow> 150 / real (length stats) | Some g \<Rightarrow> g);
             mean_log = map (\<lambda>(m, v). np_log2 m) stats;
             cv_log = map (\<lambda>(m, v). np_log2 (np_div (np_sqrt v) m)) stats;
             is_nan_indices = map (\<lambda>(a, b). np_isnan a \<or> np_isnan b) (zip mean_log cv_log);
             tr = (if np_sum_bool is_nan_indices > 0
                   then [Warning ''mean and cv_log contain NAN values. We exclude them in SVR training. Please use related gene filtering methods to filter genes with zero means.'']
                   else []);
             train = filter (\<lambda>(a, b). \<not> (np_isnan a \<or> np_isnan b)) (zip mean_log cv_log)
         in case regress gamma train of
              Inl e \<Rightarrow> Inl e
            | Inr predicted \<Rightarrow>
                if length predicted \<noteq> length train then Inl ValueError
                else
                  (let scores = map (\<lambda>s. [s])
                         (scatter is_nan_indices
                            (map (\<lambda>((a, b), p). np_sub b p) (zip train predicted)));
                       n_top = min n_top_genes (int (length stats))
                   in case py_index (map (sort_key np_key) (map (map np_neg) scores)) (n_top - 1) of
                        Inl e \<Rightarrow> Inl e
                      | Inr score_threshold \<Rightarrow>
                          Inr (concat (map (\<lambda>row. map (\<lambda>(s, t). np_ge s t)
                                                  (zip row score_threshold)) scores),
                               concat scores, tr))))"

section \<open>Library parameters used in the examples\<close>


definition svr_zero :: svr where
  "svr_zero gamma train = Inr (map (\<lambda>p. Fin 0) train)"

section \<open>Gene selection by the monocle recipe (\<^verbatim>\<open>select_genes_monocle\<close>)\<close>

text \<open>
  The annotated matrix as far as \<^verbatim>\<open>select_genes_monocle\<close> reads and writes it: the
  rows of \<^verbatim>\<open>adata.X\<close>, the gene names, and the columns \<^verbatim>\<open>pass_basic_filter\<close>,
  \<^verbatim>\<open>use_for_pca\<close> and \<^verbatim>\<open>frac\<close> of \<^verbatim>\<open>adata.var\<close>. A column can be absent;
  a cell of \<^verbatim>\<open>use_for_pca\<close> can be empty (NaN), as pandas leaves the cells of a
  column that an assignment to some rows creates.
\<close>

record gene_table =
  counts :: "real list list"
  var_names :: "string list"
  pass_basic_filter :: "bool list option"
  use_for_pca :: "bool option list option"
  frac :: "npfloat list option"

text \<open>
  Modelled from the spec: \<^verbatim>\<open>compute_gene_exp_fraction\<close> (in
  \<^verbatim>\<open>preprocessing/utils.py\<close>, not part of the sources). The specification describes it
  as the per-gene fraction of the total expression together with the genes "exceeding a
  configurable fraction-of-total-expression threshold". It returns the fractions and the
  positions of those genes.
\<close>

definition compute_gene_exp_fraction :: "real list list \<Rightarrow> real \<Rightarrow> npfloat list \<times> nat list" where
  "compute_gene_exp_fraction rows threshold =
     (let fr = map (\<lambda>j. np_div (Fin (sum_list (column rows j))) (Fin (sum_list (concat rows))))
                 [0..<n_vars rows]
      in (fr, filter (\<lambda>j. np_gt (fr ! j) (Fin threshold)) [0..<n_vars rows]))"

text \<open>\<^verbatim>\<open>adata._inplace_subset_var(filter_bool)\<close>: keep the genes whose entry is true.\<close>

definition select_by :: "bool list \<Rightarrow> 'a list \<Rightarrow> 'a list" where
  "select_by keep xs = map snd (filter fst (zip keep xs))"

definition inplace_subset_var :: "bool list \<Rightarrow> gene_table \<Rightarrow> gene_table" where
  "inplace_subset_var keep a =
     \<lparr>counts = map (select_by keep) (counts a),
      var_names = select_by keep (var_names a),
      pass_basic_filter = map_option (select_by keep) (pass_basic_filter a),
      use_for_pca = map_option (select_by keep) (use_for_pca a),
      frac = map_option (select_by keep) (frac a)\<rparr>"

text \<open>
  \<^verbatim>\<open>adata.var.loc[adata_exclude_genes, "use_for_pca"] = False\<close>, where
  \<^verbatim>\<open>adata_exclude_genes\<close> is the intersection of the gene names with
  \<^verbatim>\<open>genes_to_exclude\<close>.
\<close>

definition mark_excluded :: "string list \<Rightarrow> gene_table \<Rightarrow> gene_table" where
  "mark_excluded genes_to_exclude a =
     a\<lparr>use_for_pca :=
         Some (map (\<lambda>(name, old). if name \<in> set genes_to_exclude then Some False else old)
                 (zip (var_names a)
                    (case use_for_pca a of
                       None \<Rightarrow> replicate (length (var_names a)) None
                     | Some col \<Rightarrow> col)))\<rparr>"

text \<open>
  The size-factor computation \<^verbatim>\<open>calc_sz_factor\<close> and the selection by variability of
  the branch \<^verbatim>\<open>adata.shape[1] > n_top_genes\<close> (by Gini coefficient, or by
  \<^verbatim>\<open>select_genes_by_svr\<close> and \<^verbatim>\<open>get_svr_filter\<close>, which is not part of the
  sources) are parameters. The selection gets \<^verbatim>\<open>sort_by\<close>, the table, the current
  \<^verbatim>\<open>filter_bool\<close> and \<^verbatim>\<open>n_top_genes\<close>, and gives the table and the new
  \<^verbatim>\<open>filter_bool\<close>, or raises. The function returns nothing; the result is the table
  as the call leaves it.
\<close>

type_synonym variability_selection =
  "string \<Rightarrow> gene_table \<Rightarrow> bool list \<Rightarrow> int \<Rightarrow> error + (gene_table \<times> bool list)"

definition select_genes_monocle ::
  "(gene_table \<Rightarrow> gene_table) \<Rightarrow> variability_selection \<Rightarrow> gene_table \<Rightarrow> bool \<Rightarrow> int
     \<Rightarrow> string \<Rightarrow> real \<Rightarrow> string list option \<Rightarrow> error + gene_table" where
  "select_genes_monocle calc_sz_factor by_variability adata0 keep_filtered n_top_genes sort_by
       exprs_frac_for_gene_exclusion genes_to_exclude =
     (let a = calc_sz_factor adata0;
          n = length (var_names a);
          filter_bool0 = (case pass_basic_filter a of Some col \<Rightarrow> col
                          | None \<Rightarrow> replicate n True)
      in case (if int n \<le> n_top_genes then Inr (a, replicate n True)
               else if sort_by = ''gini'' \<or> sort_by = ''cv_dispersion''
                         \<or> sort_by = ''fano_dispersion''
                    then by_variability sort_by a filter_bool0 n_top_genes
               else Inl ValueError) of
           Inl e \<Rightarrow> Inl e
         | Inr (a1, filter_bool) \<Rightarrow>
             (let (fr, invalid_ids) =
                    compute_gene_exp_fraction (counts a1) exprs_frac_for_gene_exclusion;
                  a2 = a1\<lparr>frac := Some fr\<rparr>;
                  invalid_names = map (\<lambda>j. var_names a2 ! j) invalid_ids;
                  excl = (case genes_to_exclude of None \<Rightarrow> invalid_names
                          | Some gs \<Rightarrow> gs @ invalid_names);
                  a3 = (if excl \<noteq> [] then mark_excluded excl a2 else a2)
              in if length filter_bool \<noteq> length (var_names a3) then Inl ValueError
                 else if keep_filtered
                   then Inr (a3\<lparr>use_for_pca := Some (map Some filter_bool)\<rparr>)
                   else Inr ((inplace_subset_var filter_bool a3)
                               \<lparr>use_for_pca :=
                                  Some (replicate (length (select_by filter_bool (var_names a3)))
                                          (Some True))\<rparr>)))"

section \<open>Topology-representing-network sampling (\<^verbatim>\<open>TRNET\<close>, \<^verbatim>\<open>trn\<close>, \<^verbatim>\<open>sample\<close>)\<close>

text \<open>
  The library routines are parameters, collected in a record. The type \<open>'g\<close> is the state
  of NumPy's global random generator, which the functions below pass along explicitly.
  \<^item> \<open>lib_seed s\<close>: the state that \<^verbatim>\<open>np.random.seed(s)\<close> installs;
  \<^item> \<open>lib_randint g high size\<close>: \<^verbatim>\<open>np.random.randint(0, high, size)\<close>;
  \<^item> \<open>lib_choice g m size p\<close>: \<^verbatim>\<open>np.random.choice\<close> of \<open>size\<close> positions out of
    \<open>m\<close> without replacement, with the probabilities \<open>p\<close> if given;
  \<^item> \<open>lib_kmeans g X n\<close>: \<^verbatim>\<open>sample_by_kmeans(X, n, return_index=True)\<close>, that is
    SciPy's \<^verbatim>\<open>kmeans2\<close>, which draws from the global generator, followed by the
    nearest-neighbour helper of \<^verbatim>\<open>tools/utils.py\<close> (not part of the sources);
  \<^item> \<open>lib_nndescent seed X W\<close>: \<^verbatim>\<open>NNDescent(X, ..., random_state=seed).query(W, k=1)\<close>,
    first column of the indices;
  \<^item> \<open>lib_neighbors alg X W\<close>: \<^verbatim>\<open>NearestNeighbors(n_neighbors=1, algorithm=alg).fit(X).kneighbors(W)\<close>,
    first column of the indices.
  The two searches are functions of their arguments: they do not read the global generator.
\<close>

record 'g library =
  lib_seed :: "int \<Rightarrow> 'g"
  lib_randint :: "'g \<Rightarrow> nat \<Rightarrow> int \<Rightarrow> error + (nat list \<times> 'g)"
  lib_choice :: "'g \<Rightarrow> nat \<Rightarrow> int \<Rightarrow> npfloat list option \<Rightarrow> error + (nat list \<times> 'g)"
  lib_kmeans :: "'g \<Rightarrow> real list list option \<Rightarrow> int \<Rightarrow> error + (nat list \<times> 'g)"
  lib_nndescent :: "int \<Rightarrow> real list list \<Rightarrow> real list list \<Rightarrow> error + nat list"
  lib_neighbors :: "string \<Rightarrow> real list list \<Rightarrow> real list list \<Rightarrow> error + nat list"

text \<open>\<^verbatim>\<open>arr[idx]\<close> with an array of indices: every index must be in range.\<close>

definition take_indices :: "'a list \<Rightarrow> nat list \<Rightarrow> error + 'a list" where
  "take_indices arr idx =
     (if list_all (\<lambda>i. i < length arr) idx then Inr (map (\<lambda>i. arr ! i) idx) else Inl IndexError)"

text \<open>The object: \<^verbatim>\<open>n_nodes\<close>, the point cloud \<^verbatim>\<open>X\<close>, the seed and the nodes \<^verbatim>\<open>W\<close>.\<close>

record trnet =
  n_nodes :: int
  cloud :: "real list list"
  seed :: int
  nodes :: "real list list"

text \<open>
  \<^verbatim>\<open>draw_sample\<close>: \<^verbatim>\<open>np.random.seed(self.seed)\<close>, then
  \<^verbatim>\<open>idx = np.random.randint(0, self.X.shape[0], n_samples)\<close> and \<^verbatim>\<open>self.X[idx]\<close>.
  The generator state on entry is overwritten by the seeding.
\<close>

definition draw_sample ::
  "'g library \<Rightarrow> trnet \<Rightarrow> int \<Rightarrow> 'g \<Rightarrow> error + (real list list \<times> 'g)" where
  "draw_sample lib t n_samples g =
     (case lib_randint lib (lib_seed lib (seed t)) (length (cloud t)) n_samples of
        Inl e \<Rightarrow> Inl e
      | Inr (idx, g') \<Rightarrow>
          (case take_indices (cloud t) idx of Inl e \<Rightarrow> Inl e | Inr pts \<Rightarrow> Inr (pts, g')))"

text \<open>\<^verbatim>\<open>TRNET(n_nodes, X, seed)\<close>\<close>

definition trnet_init ::
  "'g library \<Rightarrow> int \<Rightarrow> real list list \<Rightarrow> int \<Rightarrow> 'g \<Rightarrow> error + (trnet \<times> 'g)" where
  "trnet_init lib n pts sd g =
     (case draw_sample lib \<lparr>n_nodes = n, cloud = pts, seed = sd, nodes = []\<rparr> n g of
        Inl e \<Rightarrow> Inl e
      | Inr (w, g') \<Rightarrow> Inr (\<lparr>n_nodes = n, cloud = pts, seed = sd, nodes = w\<rparr>, g'))"

text \<open>
  \<^verbatim>\<open>runOnce(p, l, ep, c)\<close> in real arithmetic. \<open>closeness_rank\<close> is
  \<^verbatim>\<open>K\<close>, the position of each node in \<^verbatim>\<open>np.argsort(sD)\<close> (equal distances are
  ranked by position here; NumPy's default sort leaves their order open). The model is for
  \<open>l \<noteq> 0\<close>: at \<open>l = 0\<close> NumPy's \<^verbatim>\<open>-K / l\<close> is infinite or NaN. The loop over \<^verbatim>\<open>range(self.n_nodes)\<close> and the broadcast need
  \<^verbatim>\<open>W\<close> to have \<^verbatim>\<open>n_nodes\<close> rows. With a cutoff \<open>c\<close> the nodes of rank below
  \<^verbatim>\<open>kc = -l * np.log(c / ep)\<close> move; when \<^verbatim>\<open>c / ep\<close> is not positive the logarithm is
  NaN or infinite and, for positive \<open>l\<close>, no rank is below \<^verbatim>\<open>kc\<close>.
\<close>

definition closeness_rank :: "real list \<Rightarrow> nat \<Rightarrow> nat" where
  "closeness_rank sD i =
     length (filter (\<lambda>j. sD ! j < sD ! i \<or> (sD ! j = sD ! i \<and> j < i)) [0..<length sD])"

definition runOnce ::
  "int \<Rightarrow> real list list \<Rightarrow> real list \<Rightarrow> real \<Rightarrow> real \<Rightarrow> real \<Rightarrow> error + real list list" where
  "runOnce n w p l ep c =
     (if int (length w) < n then Inl IndexError
      else if n < int (length w) then Inl ValueError
      else
        (let D = map (\<lambda>wi. map (\<lambda>(pj, wj). pj - wj) (zip p wi)) w;
             sD = map (\<lambda>d. sum_list (map (\<lambda>x. x * x) d)) D;
             K = map (closeness_rank sD) [0..<length w];
             moved = (\<lambda>i. map (\<lambda>(wj, dj). wj + ep * exp (- real (K ! i) / l) * dj)
                             (zip (w ! i) (D ! i)))
         in if c = 0 then Inr (map moved [0..<length w])
            else if ep \<noteq> 0 \<and> 0 < c / ep
              then Inr (map (\<lambda>i. if real (K ! i) < - l * ln (c / ep) then moved i else w ! i)
                          [0..<length w])
            else Inr w))"

text \<open>The keyword arguments of \<^verbatim>\<open>run\<close> and their defaults.\<close>

record run_kwargs =
  kw_tmax :: int
  kw_li :: real
  kw_lf :: real
  kw_ei :: real
  kw_ef :: real
  kw_c :: real

definition default_run_kwargs :: run_kwargs where
  "default_run_kwargs = \<lparr>kw_tmax = 200, kw_li = 2 / 10, kw_lf = 1 / 100, kw_ei = 3 / 10, kw_ef = 5 / 100,
       kw_c = 0\<rparr>"

text \<open>
  The loop of \<^verbatim>\<open>run\<close> over \<open>t\<close>, with \<^verbatim>\<open>tmax\<close> and \<^verbatim>\<open>li\<close> already multiplied by
  \<^verbatim>\<open>n_nodes\<close> (\<open>T\<close> and \<open>li1\<close>). The Python divisions \<^verbatim>\<open>lf / li\<close> and
  \<^verbatim>\<open>ef / ei\<close> raise on a zero divisor; \<^verbatim>\<open>np.power\<close> is the real power, which is
  what NumPy computes for a positive base. Besides the nodes the loop gives the arguments
  \<open>(p, l, ep)\<close> of every call of \<^verbatim>\<open>runOnce\<close>, in order.
\<close>

fun run_loop ::
  "int \<Rightarrow> run_kwargs \<Rightarrow> int \<Rightarrow> real \<Rightarrow> real list list \<Rightarrow> real list list
     \<Rightarrow> (real list \<times> real \<times> real) list \<Rightarrow> nat list
     \<Rightarrow> error + (real list list \<times> (real list \<times> real \<times> real) list)" where
  "run_loop n kw T li1 P w calls [] = Inr (w, calls)"
| "run_loop n kw T li1 P w calls (t # ts) =
     (if li1 = 0 \<or> kw_ei kw = 0 then Inl ZeroDivisionError
      else
        (let tt = real t / real_of_int T;
             l = li1 * (kw_lf kw / li1) powr tt;
             ep = kw_ei kw * (kw_ef kw / kw_ei kw) powr tt
         in if length P \<le> t - 1 then Inl IndexError
            else
              (case runOnce n w (P ! (t - 1)) l ep (kw_c kw) of
                 Inl e \<Rightarrow> Inl e
               | Inr w' \<Rightarrow> run_loop n kw T li1 P w' (calls @ [(P ! (t - 1), l, ep)]) ts)))"

text \<open>
  \<^verbatim>\<open>run\<close>: \<^verbatim>\<open>tmax = int(tmax * self.n_nodes)\<close>, \<^verbatim>\<open>li = li * self.n_nodes\<close>,
  \<^verbatim>\<open>P = self.draw_sample(tmax)\<close>, then the loop over \<^verbatim>\<open>range(1, tmax + 1)\<close>.
\<close>

definition run ::
  "'g library \<Rightarrow> trnet \<Rightarrow> run_kwargs \<Rightarrow> 'g
     \<Rightarrow> error + (trnet \<times> 'g \<times> (real list \<times> real \<times> real) list)" where
  "run lib t kw g =
     (let T = kw_tmax kw * n_nodes t;
          li1 = kw_li kw * real_of_int (n_nodes t)
      in case draw_sample lib t T g of
           Inl e \<Rightarrow> Inl e
         | Inr (P, g') \<Rightarrow>
             (case run_loop (n_nodes t) kw T li1 P (nodes t) [] [1..<nat (T + 1)] of
                Inl e \<Rightarrow> Inl e
              | Inr (w, calls) \<Rightarrow> Inr (t\<lparr>nodes := w\<rparr>, g', calls)))"


text \<open>
  \<^verbatim>\<open>trn\<close> (the decorator \<^verbatim>\<open>timeit\<close>, not part of the sources, is taken to return the
  function's result). \<^verbatim>\<open>X.shape[1]\<close> is the length of the first point.
\<close>

datatype trn_result = Positions "real list list" | Indices "nat list"

definition trn ::
  "'g library \<Rightarrow> real list list \<Rightarrow> int \<Rightarrow> bool \<Rightarrow> int \<Rightarrow> run_kwargs \<Rightarrow> 'g
     \<Rightarrow> error + (trn_result \<times> 'g)" where
  "trn lib pts n return_index sd kw g =
     (case trnet_init lib n pts sd g of
        Inl e \<Rightarrow> Inl e
      | Inr (t, g1) \<Rightarrow>
          (case run lib t kw g1 of
             Inl e \<Rightarrow> Inl e
           | Inr (t', g2, calls) \<Rightarrow>
               if \<not> return_index then Inr (Positions (nodes t'), g2)
               else if length pts > 200000 \<and> n_vars pts > 2 then
                 (case lib_nndescent lib sd pts (nodes t') of
                    Inl e \<Rightarrow> Inl e | Inr idx \<Rightarrow> Inr (Indices idx, g2))
               else
                 (case lib_neighbors lib (if n_vars pts > 10 then ''ball_tree'' else ''kd_tree'')
                         pts (nodes t') of
                    Inl e \<Rightarrow> Inl e | Inr idx \<Rightarrow> Inr (Indices idx, g2))))"

text \<open>\<^verbatim>\<open>sample_by_velocity\<close>\<close>

definition sample_by_velocity ::
  "'g library \<Rightarrow> real list list \<Rightarrow> int \<Rightarrow> int \<Rightarrow> error + (nat list \<times> 'g)" where
  "sample_by_velocity lib V n sd =
     (let tmp_V = map (\<lambda>v. sqrt (sum_list (map (\<lambda>x. x * x) v))) V;
          p = map (\<lambda>x. np_div (Fin x) (Fin (sum_list tmp_V))) tmp_V
      in lib_choice lib (lib_seed lib sd) (length V) n (Some p))"

text \<open>
  \<^verbatim>\<open>sample\<close>, for an array \<^verbatim>\<open>arr\<close>. The random branch chooses positions and takes
  the elements there, which is what choosing elements without replacement amounts to.
\<close>

definition sample ::
  "'g library \<Rightarrow> 'a list \<Rightarrow> int \<Rightarrow> string \<Rightarrow> real list list option \<Rightarrow> real list list option
     \<Rightarrow> int \<Rightarrow> run_kwargs \<Rightarrow> 'g \<Rightarrow> error + ('a list \<times> 'g)" where
  "sample lib arr n method pts V sd kw g =
     (if method = ''random'' then
        (case lib_choice lib (lib_seed lib sd) (length arr) n None of
           Inl e \<Rightarrow> Inl e
         | Inr (idx, g') \<Rightarrow>
             (case take_indices arr idx of Inl e \<Rightarrow> Inl e | Inr sub \<Rightarrow> Inr (sub, g')))
      else if method = ''velocity'' \<and> V \<noteq> None then
        (case sample_by_velocity lib (the V) n sd of
           Inl e \<Rightarrow> Inl e
         | Inr (idx, g') \<Rightarrow>
             (case take_indices arr idx of Inl e \<Rightarrow> Inl e | Inr sub \<Rightarrow> Inr (sub, g')))
      else if method = ''trn'' \<and> pts \<noteq> None then
        (case trn lib (the pts) n True sd kw g of
           Inl e \<Rightarrow> Inl e
         | Inr (Positions w, g') \<Rightarrow> Inl ValueError
         | Inr (Indices idx, g') \<Rightarrow>
             (case take_indices arr idx of Inl e \<Rightarrow> Inl e | Inr sub \<Rightarrow> Inr (sub, g')))
      else if method = ''kmeans'' then
        (case lib_kmeans lib g pts n of
           Inl e \<Rightarrow> Inl e
         | Inr (idx, g') \<Rightarrow>
             (case take_indices arr idx of Inl e \<Rightarrow> Inl e | Inr sub \<Rightarrow> Inr (sub, g')))
      else Inl NotImplementedError)"

text \<open>
  A generator whose state is a counter and whose every draw is position 0, with searches
  that answer position 0 for every node; a cloud of one point, two nodes, and a run of one
  epoch per node from neighbourhood length 2 to 1 at constant step size 1.
\<close>

definition constant_library :: "nat library" where
  "constant_library =
     \<lparr>lib_seed = (\<lambda>s. 0),
      lib_randint = (\<lambda>g high size. Inr (replicate (nat size) 0, Suc g)),
      lib_choice = (\<lambda>g m size p. Inr (replicate (nat size) 0, Suc g)),
      lib_kmeans = (\<lambda>g pts n. Inr (replicate (nat n) 0, Suc g)),
      lib_nndescent = (\<lambda>sd pts w. Inr (map (\<lambda>x. 0) w)),
      lib_neighbors = (\<lambda>alg pts w. Inr (map (\<lambda>x. 0) w))\<rparr>"

definition two_nodes :: trnet where
  "two_nodes = \<lparr>n_nodes = 2, cloud = [[0]], seed = 19491001, nodes = [[0], [0]]\<rparr>"

definition one_epoch :: run_kwargs where
  "one_epoch = \<lparr>kw_tmax = 1, kw_li = 2, kw_lf = 1, kw_ei = 1, kw_ef = 1, kw_c = 0\<rparr>"

chapter \<open>Verified properties\<close>

section \<open>Properties of the Gini computation\<close>

lemma sum_list_gini_index: "sum_list (gini_index n) = 0"
proof -
  have "sum_list (map (\<lambda>i. 2 * real i - real n - 1) [1..<n + 1])
        = (\<Sum>i = 1..<n + 1. 2 * real i - real n - 1)"
    by (simp add: interv_sum_list_conv_sum_set_nat)
  also have "\<dots> = 2 * (\<Sum>i = 1..<n + 1. real i) - real n * (real n + 1)"
    by (simp add: sum_subtractf sum_distrib_left algebra_simps)
  also have "(\<Sum>i = 1..<n + 1. real i) = real n * (real n + 1) / 2"
    by (induction n) (simp_all add: algebra_simps)
  finally show ?thesis by (simp add: gini_index_def)
qed

lemma length_gini_index: "length (gini_index n) = n"
  by (simp add: gini_index_def)

lemma gini_of_constant_column:
  assumes "length col = n" and "\<forall>x \<in> set col. x = k"
  shows "gini_of_column n col = 0"
proof -
  have col: "col = replicate n k"
    using assms replicate_length_same[of col k] by simp
  have "map (\<lambda>(i, x). i * x) (zip (gini_index n) (replicate n k))
        = map (\<lambda>i. i * k) (gini_index n)"
    by (rule nth_equalityI) (simp_all add: length_gini_index)
  then have "sum_list (map (\<lambda>(i, x). i * x) (zip (gini_index n) col))
        = sum_list (gini_index n) * k"
    by (simp add: col sum_list_mult_const)
  then show ?thesis
    by (simp add: gini_of_column_def sum_list_gini_index)
qed

lemma n_vars_map_map: "n_vars (map (map f) rows) = n_vars rows"
  by (cases rows) (simp_all add: n_vars_def)

lemma np_min_nonempty:
  assumes "rows \<noteq> []" and "j < n_vars rows"
  shows "\<exists>m. np_min rows = Inr m"
proof -
  obtain r rs where rows: "rows = r # rs" using assms(1) by (cases rows) auto
  with assms(2) have "r \<noteq> []" by (auto simp: n_vars_def)
  then have "concat rows \<noteq> []" by (simp add: rows)
  then show ?thesis by (auto simp: np_min_def split: list.splits)
qed

text \<open>
  Claim C8. For a matrix with at least one row, dense or sparse, and any column of it whose
  entries all have the same value \<open>c\<close> (whatever its size or sign, zero included),
  \<^verbatim>\<open>compute_gini\<close> raises nothing and the Gini coefficient it returns for that
  column is 0 (exactly so in real arithmetic; approximately so in floating point).
\<close>

theorem compute_gini_constant_column:
  assumes rect: "rectangular (entries CM)"
    and ne: "entries CM \<noteq> []"
    and j: "j < n_vars (entries CM)"
    and const: "\<forall>r \<in> set (entries CM). r ! j = c"
  shows "\<exists>g CM'. compute_gini CM = Inr (g, CM') \<and> length g = n_vars (entries CM) \<and> g ! j = 0"
proof -
  obtain m where m: "np_min (entries CM) = Inr m"
    using np_min_nonempty[OF ne j] by blast
  define CM1 where "CM1 = map (map (\<lambda>x. x + 1 / 10 ^ 7)) (map (map (\<lambda>x. x - m)) (entries CM))"
  have nv: "n_vars CM1 = n_vars (entries CM)"
    by (simp add: CM1_def n_vars_map_map)
  have len: "length CM1 = length (entries CM)" by (simp add: CM1_def)
  have inrow: "\<forall>r \<in> set (entries CM). j < length r"
    using rect j by (auto simp: rectangular_def list_all_iff)
  have colj: "\<forall>x \<in> set (column CM1 j). x = c - m + 1 / 10 ^ 7"
    using const inrow by (auto simp: column_def CM1_def)
  have "\<forall>x \<in> set (sort (column CM1 j)). x = c - m + 1 / 10 ^ 7"
    using colj by simp
  moreover have "length (sort (column CM1 j)) = length CM1"
    by (simp add: column_def)
  ultimately have g0: "gini_of_column (length CM1) (sort (column CM1 j)) = 0"
    by (rule gini_of_constant_column[rotated])
  define CM' where "CM' = (case CM of Dense _ \<Rightarrow> Dense (map (map (\<lambda>x. x - m)) (entries CM))
                             | Sparse rows \<Rightarrow> Sparse rows)"
  have cg: "compute_gini CM =
      Inr (map (gini_of_column (length CM1)) (map (\<lambda>j. sort (column CM1 j)) [0..<n_vars CM1]), CM')"
    by (simp add: compute_gini_def m Let_def CM1_def CM'_def del: map_map)
  have "map (gini_of_column (length CM1)) (map (\<lambda>j. sort (column CM1 j)) [0..<n_vars CM1]) ! j = 0"
    using j g0 by (simp add: nv)
  then show ?thesis
    using cg by (simp add: nv)
qed

text \<open>The same at a two-cell matrix whose first column is constantly 5.\<close>

theorem compute_gini_constant_column_witness:
  "\<exists>g CM'. compute_gini (Dense [[5, 1], [5, 3]]) = Inr (g, CM') \<and>
     length g = n_vars (entries (Dense [[5, 1], [5, 3]])) \<and> g ! 0 = 0"
proof -
  have 1: "rectangular (entries (Dense [[5, 1], [5, 3]]))"
    by (simp add: entries_def rectangular_def n_vars_def)
  have 2: "entries (Dense [[5, 1], [5, 3]]) \<noteq> []"
    by (simp add: entries_def)
  have 3: "0 < n_vars (entries (Dense [[5, 1], [5, 3]]))"
    by (simp add: entries_def n_vars_def)
  have 4: "\<forall>r \<in> set (entries (Dense [[5, 1], [5, 3]])). r ! 0 = 5"
    by (simp add: entries_def)
  show ?thesis
    by (rule compute_gini_constant_column[OF 1 2 3 4])
qed

text \<open>
  Claim C10. \<^verbatim>\<open>Gini\<close> is documented to add the \<^verbatim>\<open>layer + '_gini'\<close> columns only.
  On a dense matrix whose smallest entry is not 0 the in-place subtraction
  \<^verbatim>\<open>CM -= np.min(CM)\<close> reaches the caller's array: with \<^verbatim>\<open>adata.X = [[1], [2]]\<close>
  the call returns normally and leaves \<^verbatim>\<open>adata.X = [[0], [1]]\<close>.
\<close>

theorem Gini_shifts_dense_X:
  "\<exists>a'. Gini \<lparr>X = Dense [[1], [2]], raw_X = None, layers = Map.empty, obsm = Map.empty,
               var = Map.empty\<rparr> [''X''] = Inr a'
        \<and> X a' = Dense [[0], [1]] \<and> dom (var a') = {''X_gini''}"
  by (simp add: Gini_layer_def compute_gini_def np_min_def entries_def Let_def n_vars_def
      split: sum.splits)

text \<open>The sparse path works on a copy and leaves the entries as they were.\<close>

lemma compute_gini_sparse_unchanged:
  "compute_gini (Sparse rows) = Inr (g, CM') \<Longrightarrow> CM' = Sparse rows"
  by (auto simp: compute_gini_def Let_def split: sum.splits)

section \<open>Properties of the parametric dispersion fit\<close>

lemma fit_loop_a_not_below_initial:
  "fit_loop fit_glm disp_table initial_coefs c iter tr = Inr (c', good, tr')
     \<Longrightarrow> \<not> np_lt (fst c') (fst initial_coefs)"
proof (induction fit_glm disp_table initial_coefs c iter tr rule: fit_loop.induct)
  case (1 fit_glm disp_table initial_coefs c iter tr)
  define good0 where "good0 = good_rows initial_coefs c disp_table"
  from "1.prems" obtain params where p: "fit_glm good0 c = Inr params"
    by (subst (asm) fit_loop.simps) (auto simp: good0_def Let_def split: sum.splits)
  define c1 where "c1 = (if np_lt (fst params) (fst initial_coefs)
                     then (fst initial_coefs, snd params) else params)"
  have nolt: "\<not> np_lt (fst initial_coefs) (fst initial_coefs)"
    by (cases "fst initial_coefs") simp_all
  have c1_ok: "\<not> np_lt (fst c1) (fst initial_coefs)"
    using nolt by (simp add: c1_def)
  show ?case
  proof (cases "converged c1 c \<or> iter + 1 > 10")
    case True
    with "1.prems" p have "c' = c1"
      by (subst (asm) fit_loop.simps)
         (auto simp: good0_def[symmetric] c1_def[symmetric] Let_def split: if_splits)
    with c1_ok show ?thesis by simp
  next
    case False
    define tr1 where "tr1 = tr @ [GLM_fit] @
                     (if np_lt (snd c1) (Fin 0)
                      then [Warning ''Parametric dispersion fit may be failed.''] else [])"
    define tr2 where "tr2 = tr1 @ (if \<not> (np_gt (fst c1) (Fin 0) \<and> np_gt (snd c1) (Fin 0))
                             then [Warning ''Parametric dispersion fit may be failed.'']
                             else [])"
    from False "1.prems" p
    have rec: "fit_loop fit_glm disp_table initial_coefs c1 (iter + 1) tr2 = Inr (c', good, tr')"
      unfolding tr2_def tr1_def
      by (subst (asm) fit_loop.simps)
         (simp add: good0_def[symmetric] c1_def[symmetric] Let_def)
    show ?thesis
      by (rule "1.IH"[OF good0_def p refl c1_def tr1_def _ _ rec[unfolded tr2_def]])
         (use False in auto)
  qed
qed


lemma fit_loop_returns:
  assumes "\<And>g c0. \<exists>p. fit_glm g c0 = Inr p"
  shows "\<exists>r. fit_loop fit_glm disp_table initial_coefs c iter tr = Inr r"
  using assms
proof (induction fit_glm disp_table initial_coefs c iter tr rule: fit_loop.induct)
  case (1 fit_glm disp_table initial_coefs c iter tr)
  define good0 where "good0 = good_rows initial_coefs c disp_table"
  obtain params where p: "fit_glm good0 c = Inr params"
    using "1.prems" by blast
  define c1 where "c1 = (if np_lt (fst params) (fst initial_coefs)
                     then (fst initial_coefs, snd params) else params)"
  show ?case
  proof (cases "converged c1 c \<or> iter + 1 > 10")
    case True
    then show ?thesis
      by (subst fit_loop.simps)
         (auto simp: good0_def[symmetric] p c1_def[symmetric] Let_def)
  next
    case False
    have "\<exists>r. fit_loop fit_glm disp_table initial_coefs c1 (iter + 1)
            ((tr @ [GLM_fit] @
                (if np_lt (snd c1) (Fin 0)
                 then [Warning ''Parametric dispersion fit may be failed.''] else [])) @
             (if \<not> (np_gt (fst c1) (Fin 0) \<and> np_gt (snd c1) (Fin 0))
              then [Warning ''Parametric dispersion fit may be failed.''] else [])) = Inr r"
      by (rule "1.IH"[OF good0_def p refl c1_def refl]) (use False "1.prems" in auto)
    with False show ?thesis
      by (subst fit_loop.simps)
         (simp add: good0_def[symmetric] p c1_def[symmetric] Let_def)
  qed
qed

text \<open>
  Claim C6. Whatever the dispersion table, the initial coefficients and the GLM, the first
  coefficient \<open>a\<close> that \<^verbatim>\<open>parametric_dispersion_fit\<close> returns is never less than
  the initial \<open>a\<close>; and the function does return (after at most eleven fits) whenever the
  GLM itself does not raise.
\<close>

theorem parametric_dispersion_fit_a_not_below_initial:
  "(parametric_dispersion_fit fit_glm disp_table initial_coefs = Inr (c, good, tr)
      \<longrightarrow> \<not> np_lt (fst c) (fst initial_coefs))
   \<and> ((\<forall>g c0. \<exists>p. fit_glm g c0 = Inr p)
      \<longrightarrow> (\<exists>r. parametric_dispersion_fit fit_glm disp_table initial_coefs = Inr r))"
  unfolding parametric_dispersion_fit_def
  using fit_loop_a_not_below_initial[of fit_glm disp_table initial_coefs initial_coefs 0 "[]" c good tr]
    fit_loop_returns[of fit_glm disp_table initial_coefs initial_coefs 0 "[]"]
  by blast

text \<open>
  At a GLM that answers intercept \<open>-5\<close> and slope 2: the returned \<open>a\<close> is the initial
  \<open>1e-6\<close>.
\<close>

theorem parametric_dispersion_fit_a_not_below_initial_witness:
  "parametric_dispersion_fit (\<lambda>g c0. Inr (Fin (- 5), Fin 2))
      [\<lparr>mu = Fin 1, disp = Fin 2, gene_id = ''g1''\<rparr>, \<lparr>mu = Fin 2, disp = Fin 1, gene_id = ''g2''\<rparr>]
      default_initial_coefs
    = Inr ((Fin (1 / 10 ^ 6), Fin 2),
           [\<lparr>mu = Fin 1, disp = Fin 2, gene_id = ''g1''\<rparr>, \<lparr>mu = Fin 2, disp = Fin 1, gene_id = ''g2''\<rparr>],
           [GLM_fit])
   \<and> \<not> np_lt (Fin (1 / 10 ^ 6)) (fst default_initial_coefs)
   \<and> (\<exists>r. parametric_dispersion_fit (\<lambda>g c0. Inr (Fin (- 5), Fin 2))
      [\<lparr>mu = Fin 1, disp = Fin 2, gene_id = ''g1''\<rparr>, \<lparr>mu = Fin 2, disp = Fin 1, gene_id = ''g2''\<rparr>]
      default_initial_coefs = Inr r)"
proof -
  let ?glm = "\<lambda>(g::disp_row list) (c0::coefs). (Inr (Fin (- 5), Fin 2) :: error + coefs)"
  let ?tbl = "[\<lparr>mu = Fin 1, disp = Fin 2, gene_id = ''g1''\<rparr>, \<lparr>mu = Fin 2, disp = Fin 1, gene_id = ''g2''\<rparr>]"
  have run: "parametric_dispersion_fit ?glm ?tbl default_initial_coefs
      = Inr ((Fin (1 / 10 ^ 6), Fin 2), ?tbl, [GLM_fit])"
    by (simp add: parametric_dispersion_fit_def fit_loop.simps good_rows_def residual_def
        converged_def log_ratio_sq_def np_sum_bool_def default_initial_coefs_def np_gt_def Let_def)
  have tot: "\<forall>g c0. \<exists>p. ?glm g c0 = Inr p" by simp
  from parametric_dispersion_fit_a_not_below_initial[of ?glm ?tbl default_initial_coefs
      "(Fin (1 / 10 ^ 6), Fin 2)" ?tbl "[GLM_fit]"] run tot
  show ?thesis by simp
qed

text \<open>
  The cap on the iterations: the counter is raised after a fit that did not pass the test,
  and the loop ends once it exceeds 10, so the GLM is fitted eleven times at most.
\<close>

lemma fit_loop_at_most_eleven_fits:
  "fit_loop fit_glm disp_table initial_coefs c iter tr = Inr (c', good, tr')
     \<Longrightarrow> iter \<le> 10
     \<Longrightarrow> count_list tr' GLM_fit \<le> count_list tr GLM_fit + (11 - iter)"
proof (induction fit_glm disp_table initial_coefs c iter tr rule: fit_loop.induct)
  case (1 fit_glm disp_table initial_coefs c iter tr)
  define good0 where "good0 = good_rows initial_coefs c disp_table"
  from "1.prems" obtain params where p: "fit_glm good0 c = Inr params"
    by (subst (asm) fit_loop.simps) (auto simp: good0_def Let_def split: sum.splits)
  define c1 where "c1 = (if np_lt (fst params) (fst initial_coefs)
                     then (fst initial_coefs, snd params) else params)"
  define tr1 where "tr1 = tr @ [GLM_fit] @
                     (if np_lt (snd c1) (Fin 0)
                      then [Warning ''Parametric dispersion fit may be failed.''] else [])"
  have n1: "count_list tr1 GLM_fit = count_list tr GLM_fit + 1"
    by (simp add: tr1_def)
  show ?case
  proof (cases "converged c1 c \<or> iter + 1 > 10")
    case True
    with "1.prems" p have "count_list tr' GLM_fit = count_list tr GLM_fit + 1"
      by (subst (asm) fit_loop.simps)
         (auto simp: good0_def[symmetric] c1_def[symmetric] Let_def split: if_splits)
    with "1.prems"(2) show ?thesis by simp
  next
    case False
    define tr2 where "tr2 = tr1 @ (if \<not> (np_gt (fst c1) (Fin 0) \<and> np_gt (snd c1) (Fin 0))
                             then [Warning ''Parametric dispersion fit may be failed.'']
                             else [])"
    have n2: "count_list tr2 GLM_fit = count_list tr1 GLM_fit" by (simp add: tr2_def)
    from False "1.prems" p
    have rec: "fit_loop fit_glm disp_table initial_coefs c1 (iter + 1) tr2 = Inr (c', good, tr')"
      unfolding tr2_def tr1_def
      by (subst (asm) fit_loop.simps)
         (simp add: good0_def[symmetric] c1_def[symmetric] Let_def)
    have "count_list tr' GLM_fit \<le> count_list tr2 GLM_fit + (11 - (iter + 1))"
      by (rule "1.IH"[OF good0_def p refl c1_def tr1_def _ _ rec[unfolded tr2_def], folded tr2_def])
         (use False in auto)
    moreover have "iter \<le> 9" using False by simp
    ultimately show ?thesis using n1 n2 by linarith
  qed
qed

lemma parametric_dispersion_fit_at_most_eleven_fits:
  "parametric_dispersion_fit fit_glm disp_table initial_coefs = Inr (c', good, tr')
     \<Longrightarrow> count_list tr' GLM_fit \<le> 11"
  using fit_loop_at_most_eleven_fits[of fit_glm disp_table initial_coefs initial_coefs 0 "[]"]
  by (simp add: parametric_dispersion_fit_def)

lemma one_le_ln3: "1 \<le> ln (3::real)"
  using exp_le ln_ge_iff[of 3 1] by simp

text \<open>
  Claim C1. The specification's convergence test is
  \<^verbatim>\<open>sum((log(new_coef/old_coef))^2) < a\<close>. The source compares inside the sum, so the
  loop stops as soon as one squared log-ratio is below \<open>a\<close>. On the table
  \<open>disp = 3 / mu\<close> with the default initial coefficients \<open>[1e-6, 1]\<close> the exact fit has
  intercept 0 and slope 3; the intercept is clamped to \<open>1e-6\<close>, its log-ratio is 0, and the
  function returns after one fit although the sum of the squared log-ratios,
  \<open>(ln 3)\<^sup>2\<close>, is not below \<open>a\<close>.
\<close>

theorem parametric_dispersion_fit_stops_on_one_coefficient:
  "parametric_dispersion_fit (\<lambda>g c0. Inr (Fin 0, Fin 3))
      [\<lparr>mu = Fin 1, disp = Fin 3, gene_id = ''g1''\<rparr>, \<lparr>mu = Fin 3, disp = Fin 1, gene_id = ''g2''\<rparr>]
      default_initial_coefs
    = Inr ((Fin (1 / 10 ^ 6), Fin 3),
           [\<lparr>mu = Fin 1, disp = Fin 3, gene_id = ''g1''\<rparr>, \<lparr>mu = Fin 3, disp = Fin 1, gene_id = ''g2''\<rparr>],
           [GLM_fit])
   \<and> \<not> spec_converged (Fin (1 / 10 ^ 6), Fin 3) default_initial_coefs"
proof -
  have "1 * 1 \<le> ln (3::real) * ln 3"
    by (rule mult_mono) (use one_le_ln3 in simp_all)
  then have "\<not> ln (3::real) * ln 3 < 1 / 10 ^ 6" by simp
  then have "\<not> spec_converged (Fin (1 / 10 ^ 6), Fin 3) default_initial_coefs"
    by (simp add: spec_converged_def log_ratio_sq_def default_initial_coefs_def Let_def)
  moreover have "parametric_dispersion_fit (\<lambda>g c0. Inr (Fin 0, Fin 3))
      [\<lparr>mu = Fin 1, disp = Fin 3, gene_id = ''g1''\<rparr>, \<lparr>mu = Fin 3, disp = Fin 1, gene_id = ''g2''\<rparr>]
      default_initial_coefs
    = Inr ((Fin (1 / 10 ^ 6), Fin 3),
           [\<lparr>mu = Fin 1, disp = Fin 3, gene_id = ''g1''\<rparr>, \<lparr>mu = Fin 3, disp = Fin 1, gene_id = ''g2''\<rparr>],
           [GLM_fit])"
    by (simp add: parametric_dispersion_fit_def fit_loop.simps good_rows_def residual_def
        converged_def log_ratio_sq_def np_sum_bool_def default_initial_coefs_def np_gt_def Let_def)
  ultimately show ?thesis by simp
qed

section \<open>Properties of the dispersion estimation\<close>

lemma np_ne_NaN: "np_ne x NaN"
  by (cases x) (simp_all add: np_ne_def np_eq_def)

lemma residual_nan_mu: "np_isnan (mu r) \<Longrightarrow> residual c0 r = NaN"
  by (cases "mu r"; cases "disp r"; cases "fst c0"; cases "snd c0") (simp_all add: residual_def)

lemma good_rows_no_valid_mu:
  assumes "\<forall>r \<in> set t. np_isnan (mu r)"
  shows "good_rows initial_coefs c0 t = []"
  using assms by (simp add: good_rows_def filter_empty_conv residual_nan_mu np_gt_def)

lemma parametric_dispersion_fit_no_valid_mu:
  assumes "\<forall>c0. \<exists>e. fit_glm [] c0 = Inl e" and "\<forall>r \<in> set t. np_isnan (mu r)"
  shows "\<exists>e. parametric_dispersion_fit fit_glm t initial_coefs = Inl e"
proof -
  obtain e where "fit_glm [] initial_coefs = Inl e" using assms(1) by blast
  then show ?thesis
    unfolding parametric_dispersion_fit_def
    by (subst fit_loop.simps) (simp add: good_rows_no_valid_mu[OF assms(2)])
qed

text \<open>
  Claim C2. Let the GLM refuse an empty training set, as the library does. If the table of
  some layer has no row with a valid \<open>mu\<close> (every \<open>mu\<close> is NaN, or the table has no row),
  \<^verbatim>\<open>estimate_dispersion\<close> ends in an exception, whatever the other layers, the flag
  \<^verbatim>\<open>removeOutliers\<close> and the results stored so far: the layer is not skipped and no
  result is returned. On such a table every residual is NaN, the set \<^verbatim>\<open>good\<close> is empty,
  and the exception is the one the first fit raises.
\<close>

theorem estimate_dispersion_raises_without_valid_rows:
  assumes "\<forall>c0. \<exists>e. fit_glm [] c0 = Inl e"
    and "(layer, Some t) \<in> set tables"
    and "\<forall>r \<in> set t. np_isnan (mu r)"
  shows "\<exists>e. estimate_dispersion fit_glm keep_rows removeOutliers tables uns tr = Inl e"
  using assms(2)
proof (induction tables arbitrary: uns tr)
  case Nil
  then show ?case by simp
next
  case (Cons lt rest)
  obtain l0 t0 where lt: "lt = (l0, t0)" by (cases lt)
  show ?case
  proof (cases "lt = (layer, Some t)")
    case True
    have "filter (\<lambda>r. np_ne (mu r) NaN) t = t"
      by (simp add: np_ne_NaN)
    moreover obtain e where "parametric_dispersion_fit fit_glm t default_initial_coefs = Inl e"
      using parametric_dispersion_fit_no_valid_mu[of fit_glm t default_initial_coefs] assms(1,3)
      by blast
    ultimately show ?thesis using True by simp
  next
    case False
    with Cons.prems have mem: "(layer, Some t) \<in> set rest" by simp
    have IH: "\<And>u s. \<exists>e. estimate_dispersion fit_glm keep_rows removeOutliers rest u s = Inl e"
      using Cons.IH[OF mem] by blast
    show ?thesis
    proof (cases removeOutliers)
      case True
      with IH show ?thesis
        unfolding lt by (auto simp: Let_def split: option.splits sum.splits)
    next
      case False
      with IH show ?thesis
        unfolding lt by (auto simp: Let_def split: option.splits sum.splits)
    qed
  qed
qed

text \<open>A table whose only row has a NaN \<open>mu\<close>, with a GLM that raises on an empty set.\<close>

theorem estimate_dispersion_raises_without_valid_rows_witness:
  "estimate_dispersion (\<lambda>g c0. if g = [] then Inl ValueError else Inr c0) (\<lambda>c0 g. Inr g) False
      [(''X'', Some [\<lparr>mu = NaN, disp = NaN, gene_id = ''g1''\<rparr>])] Map.empty []
     = Inl ValueError"
proof -
  let ?glm = "\<lambda>(g :: disp_row list) (c0 :: coefs). if g = [] then Inl ValueError else Inr c0"
  have 1: "\<forall>c0. \<exists>e. ?glm [] c0 = Inl e" by simp
  have 2: "(''X'', Some [\<lparr>mu = NaN, disp = NaN, gene_id = ''g1''\<rparr>])
             \<in> set [(''X'', Some [\<lparr>mu = NaN, disp = NaN, gene_id = ''g1''\<rparr>])]" by simp
  have 3: "\<forall>r \<in> set [\<lparr>mu = NaN, disp = NaN, gene_id = ''g1''\<rparr>]. np_isnan (mu r)" by simp
  from estimate_dispersion_raises_without_valid_rows[of ?glm "''X''" _ _ "\<lambda>c0 g. Inr g" False
         Map.empty "[]", OF 1 2 3]
  obtain e where e: "estimate_dispersion ?glm (\<lambda>c0 g. Inr g) False
      [(''X'', Some [\<lparr>mu = NaN, disp = NaN, gene_id = ''g1''\<rparr>])] Map.empty [] = Inl e"
    by blast
  moreover have "e = ValueError"
    using e
    by (simp add: np_ne_NaN parametric_dispersion_fit_def fit_loop.simps good_rows_def
        residual_def np_gt_def Let_def)
  ultimately show ?thesis by simp
qed

text \<open>
  The exception is the library's, not the one of the source's own check: the check
  \<^verbatim>\<open>disp_table is None\<close> does not fire on such a table and the selection by
  \<^verbatim>\<open>disp_table["mu"] != np.nan\<close> keeps every row, so with a GLM that accepted an empty
  training set the call would return.
\<close>

lemma estimate_dispersion_own_check_passes_nan_rows:
  "estimate_dispersion (\<lambda>g c0. Inr c0) keep_rows False
      [(''X'', Some [\<lparr>mu = NaN, disp = NaN, gene_id = ''g1''\<rparr>])] Map.empty []
     = Inr ([''dispFitInfo'' \<mapsto> \<lparr>info_disp_table = [], info_coefs = default_initial_coefs\<rparr>],
            [GLM_fit])
   \<and> estimate_dispersion (\<lambda>g c0. Inr c0) keep_rows False [(''X'', Some [])] Map.empty []
     = Inr ([''dispFitInfo'' \<mapsto> \<lparr>info_disp_table = [], info_coefs = default_initial_coefs\<rparr>],
            [GLM_fit])"
  by (simp add: np_ne_NaN parametric_dispersion_fit_def fit_loop.simps good_rows_def residual_def
        converged_def log_ratio_sq_def np_sum_bool_def default_initial_coefs_def np_gt_def Let_def
        uns_key_def)

section \<open>Properties of the Seurat normalization\<close>

lemma filter_upt_unique:
  assumes "g < n" and "\<forall>h < n. P h \<longleftrightarrow> h = g"
  shows "filter P [0..<n] = [g]"
proof -
  have "filter P [0..<n] = filter (\<lambda>h. h = g) [0..<n]"
    using assms(2) by (intro filter_cong) auto
  also have "\<dots> = [g]"
    using assms(1)
  proof (induction n)
    case 0
    then show ?case by simp
  next
    case (Suc n)
    show ?case
    proof (cases "g = n")
      case True
      have "filter (\<lambda>h. h = n) [0..<n] = []"
        by (simp add: filter_empty_conv)
      with True show ?thesis by simp
    next
      case False
      with Suc show ?thesis by simp
    qed
  qed
  finally show ?thesis .
qed

lemma bin_group_single:
  assumes "g < length dispersion" and "\<forall>h < length dispersion. bin h = bin g \<longrightarrow> h = g"
  shows "bin_group bin dispersion g = [dispersion ! g]"
proof -
  have "filter (\<lambda>h. bin h = bin g) [0..<length dispersion] = [g]"
    by (rule filter_upt_unique) (use assms in auto)
  then show ?thesis by (simp add: bin_group_def)
qed

lemma single_gene_norm:
  "fillna0 (np_div (np_sub d (if np_isnan (group_std [d]) then Fin 0 else group_mean [d]))
                   (if np_isnan (group_std [d]) then group_mean [d] else group_std [d]))
   = (case d of Fin x \<Rightarrow> if x = 0 then Fin 0 else Fin 1 | _ \<Rightarrow> Fin 0)"
  by (cases d)
     (simp_all add: group_std_def group_mean_def np_sum_def np_sub_def fillna0_def Let_def)

text \<open>
  Claim C4, as the code has it. A gene that is alone in its bin gets the normalized
  dispersion 1 when its dispersion (after the optional log) is a nonzero number: the bin's
  standard deviation is NaN, the backfill makes it the bin mean, which is the gene's own
  dispersion, and the bin mean 0, so the quotient is \<open>d / d\<close>. It gets 0 exactly when its
  dispersion is 0, NaN or infinite (the quotient is NaN and \<^verbatim>\<open>fillna(0)\<close> applies).
\<close>

theorem seurat_single_gene_bin:
  assumes "cut_fn (seurat_mean stats lg) n_bins = Inr bin"
    and "g < length stats"
    and "\<forall>h < length stats. bin h = bin g \<longrightarrow> h = g"
  shows "seurat_dispersion_norm bin (seurat_dispersion stats lg) ! g
         = (case seurat_dispersion stats lg ! g of
              Fin d \<Rightarrow> if d = 0 then Fin 0 else Fin 1
            | _ \<Rightarrow> Fin 0)"
proof -
  let ?disp = "seurat_dispersion stats lg"
  have len: "length ?disp = length stats" by (simp add: seurat_dispersion_def)
  have grp: "bin_group bin ?disp g = [?disp ! g]"
    by (rule bin_group_single) (use assms len in auto)
  have "seurat_dispersion_norm bin ?disp ! g
        = fillna0 (np_div (np_sub (?disp ! g) (disp_mean_bin bin ?disp g)) (disp_std_bin bin ?disp g))"
    using assms(2) len by (simp add: seurat_dispersion_norm_def)
  also have "\<dots> = (case ?disp ! g of Fin d \<Rightarrow> if d = 0 then Fin 0 else Fin 1 | _ \<Rightarrow> Fin 0)"
    unfolding disp_mean_bin_def disp_std_bin_def grp by (rule single_gene_norm)
  finally show ?thesis .
qed


text \<open>Two genes, each in a bin of its own, dispersions 2 and 3: the first is normalized to 1.\<close>

theorem seurat_single_gene_bin_witness:
  "seurat_dispersion_norm id (seurat_dispersion [(Fin 1, Fin 2), (Fin 2, Fin 6)] False) ! 0 = Fin 1"
proof -
  have 1: "(\<lambda>xs n. Inr id) (seurat_mean [(Fin 1, Fin 2), (Fin 2, Fin 6)] False) (20::int)
           = (Inr id :: error + (nat \<Rightarrow> nat))" by simp
  have 2: "0 < length [(Fin 1, Fin 2), (Fin 2, Fin 6)]" by simp
  have 3: "\<forall>h < length [(Fin 1, Fin 2), (Fin 2, Fin 6)]. id h = id (0::nat) \<longrightarrow> h = 0" by simp
  show ?thesis
    using seurat_single_gene_bin[of "\<lambda>xs n. Inr id" _ False 20 id 0, OF 1 2 3]
    by (simp add: seurat_dispersion_def)
qed

text \<open>
  The claim as stated (normalized dispersion 0) fails on the default path with the log
  transform: mean 1 and variance 2 give the dispersion \<open>ln 2\<close>, normalized to 1.
\<close>

theorem seurat_single_gene_bin_not_zero:
  "seurat_dispersion_norm id (seurat_dispersion [(Fin 1, Fin 2), (Fin 2, Fin 6)] True) ! 0 = Fin 1
   \<and> seurat_dispersion_norm id (seurat_dispersion [(Fin 1, Fin 2), (Fin 2, Fin 6)] True) ! 0 \<noteq> Fin 0"
  by (simp add: seurat_dispersion_norm_def seurat_dispersion_def disp_mean_bin_def
      disp_std_bin_def bin_group_def group_std_def group_mean_def np_sum_def np_sub_def
      fillna0_def np_eq_def Let_def)

section \<open>Properties of the top-N masks\<close>



































text \<open>
  The SVR threshold is \<^verbatim>\<open>np.sort(-scores)[n_top_genes - 1]\<close> on the \<open>n \<times> 1\<close> array:
  nothing is sorted and the sign stays flipped. Two genes with the scores 0 and 1 and a top-1
  request: both are marked.
\<close>

lemma svr_top_1_selects_2_without_ties:
  "get_highly_variable_mask_by_dispersion_svr svr_zero [(Fin 1, Fin 1), (Fin 1, Fin 4)] 1 None
    = Inr ([True, True], [Fin 0, Fin 1], [])"
  by (simp add: get_highly_variable_mask_by_dispersion_svr_def svr_zero_def np_sum_bool_def
      py_index_def np_sub_def np_ge_def np_eq_def Let_def)

section \<open>Properties of the monocle recipe\<close>

lemma fraction_example:
  "compute_gene_exp_fraction [[9, 1]] (1 / 2) = ([Fin (9 / 10), Fin (1 / 10)], [0])"
  by (simp add: compute_gene_exp_fraction_def n_vars_def column_def np_gt_def Let_def)

text \<open>
  Claim C5. The source first sets \<^verbatim>\<open>use_for_pca\<close> to \<^verbatim>\<open>False\<close> for the genes whose
  expression fraction exceeds the threshold, and then overwrites the whole column: with
  \<^verbatim>\<open>filter_bool\<close> when \<^verbatim>\<open>keep_filtered\<close>, with \<^verbatim>\<open>True\<close> after subsetting
  otherwise. One cell with the counts 9 and 1 for two genes and the threshold 0.5: the first
  gene has the fraction 0.9, and ends with \<^verbatim>\<open>use_for_pca = True\<close> for either value of
  \<^verbatim>\<open>keep_filtered\<close>.
\<close>

theorem select_genes_monocle_keeps_excluded_gene:
  "select_genes_monocle (\<lambda>a. a) by_variability
      \<lparr>counts = [[9, 1]], var_names = [''g0'', ''g1''], pass_basic_filter = None,
       use_for_pca = None, frac = None\<rparr>
      keep_filtered 2000 ''cv_dispersion'' (1 / 2) None
   = Inr \<lparr>counts = [[9, 1]], var_names = [''g0'', ''g1''], pass_basic_filter = None,
          use_for_pca = Some [Some True, Some True],
          frac = Some [Fin (9 / 10), Fin (1 / 10)]\<rparr>"
  by (cases keep_filtered)
     (simp_all add: select_genes_monocle_def fraction_example mark_excluded_def
        inplace_subset_var_def select_by_def Let_def numeral_2_eq_2)


text \<open>
  More generally, when there are no more genes than \<^verbatim>\<open>n_top_genes\<close> and
  \<^verbatim>\<open>keep_filtered\<close> is set, every gene ends with \<^verbatim>\<open>use_for_pca = True\<close>, whatever
  the threshold and the list of genes to exclude.
\<close>

lemma var_names_mark_excluded: "var_names (mark_excluded gs a) = var_names a"
  by (simp add: mark_excluded_def)

lemma select_genes_monocle_all_selected:
  assumes "select_genes_monocle calc_sz_factor by_variability adata0 True n_top_genes sort_by
             threshold genes_to_exclude = Inr a'"
    and "int (length (var_names (calc_sz_factor adata0))) \<le> n_top_genes"
  shows "use_for_pca a' = Some (replicate (length (var_names a')) (Some True))"
  using assms
  by (auto simp: select_genes_monocle_def Let_def var_names_mark_excluded map_replicate_const
      split: prod.splits if_splits)

section \<open>Properties of the sampler\<close>

text \<open>
  Claim C9. With \<^verbatim>\<open>method="trn"\<close> the result of \<^verbatim>\<open>sample\<close> (the sampled array and the
  generator state it leaves, or the exception) is the same whatever state the global random
  generator is in when the call is made: every draw is preceded by
  \<^verbatim>\<open>np.random.seed(self.seed)\<close>. Two calls with identical arguments therefore return
  identical arrays.
\<close>

theorem sample_trn_independent_of_generator_state:
  "sample lib arr n ''trn'' pts V sd kw g1 = sample lib arr n ''trn'' pts V sd kw g2"
proof -
  have "trnet_init lib n (the pts) sd g1 = trnet_init lib n (the pts) sd g2"
    by (simp add: trnet_init_def draw_sample_def)
  then have "trn lib (the pts) n True sd kw g1 = trn lib (the pts) n True sd kw g2"
    by (simp add: trn_def)
  then show ?thesis
    by (simp add: sample_def)
qed








lemma quarter_powr_half: "(1 / 4 :: real) powr (1 / 2) = 1 / 2"
  by (simp add: powr_half_sqrt real_sqrt_divide)

lemma example_draw:
  "draw_sample constant_library two_nodes 2 g = Inr ([[0], [0]], Suc 0)"
  by (simp add: draw_sample_def constant_library_def two_nodes_def take_indices_def
      numeral_2_eq_2)

lemma example_runOnce: "runOnce 2 [[0], [0]] [0] l ep 0 = Inr [[0], [0]]"
  by (simp add: runOnce_def Let_def closeness_rank_def numeral_2_eq_2)

lemma example_steps: "[1..<nat (2 + 1)] = [1, 2]"
  by (simp add: upt_rec)

lemma example_loop:
  "run_loop 2 one_epoch 2 4 [[0], [0]] [[0], [0]] [] [1, 2]
     = Inr ([[0], [0]], [([0], 2, 1), ([0], 1, 1)])"
  by (simp add: one_epoch_def example_runOnce quarter_powr_half Let_def)

lemma example_run:
  "run constant_library two_nodes one_epoch g
     = Inr (two_nodes, Suc 0, [([0], 2, 1), ([0], 1, 1)])"
proof -
  have T: "kw_tmax one_epoch * n_nodes two_nodes = 2"
    and li1: "kw_li one_epoch * real_of_int (n_nodes two_nodes) = 4"
    and w: "nodes two_nodes = [[0], [0]]" and n: "n_nodes two_nodes = 2"
    by (simp_all add: one_epoch_def two_nodes_def)
  have "run constant_library two_nodes one_epoch g
          = Inr (two_nodes\<lparr>nodes := [[0], [0]]\<rparr>, Suc 0, [([0], 2, 1), ([0], 1, 1)])"
    unfolding run_def Let_def T li1
    by (simp only: example_draw example_steps w n example_loop sum.case prod.case)
  then show ?thesis by (simp add: two_nodes_def)
qed




text \<open>
  The sampling of two elements of \<open>[10, 20, 30]\<close> with the constant generator, started from
  two different generator states.
\<close>

lemma example_trn:
  "trn constant_library [[0]] 2 True 19491001 one_epoch g = Inr (Indices [0, 0], Suc 0)"
proof -
  have init: "trnet_init constant_library 2 [[0]] 19491001 g = Inr (two_nodes, Suc 0)"
    by (simp add: trnet_init_def draw_sample_def constant_library_def two_nodes_def
        take_indices_def numeral_2_eq_2)
  have nn: "lib_neighbors constant_library ''kd_tree'' [[0]] (nodes two_nodes) = Inr [0, 0]"
    by (simp add: constant_library_def two_nodes_def)
  show ?thesis
    unfolding trn_def init
    by (simp add: example_run n_vars_def nn)
qed

theorem sample_trn_independent_of_generator_state_witness:
  "sample constant_library [10 :: nat, 20, 30] 2 ''trn'' (Some [[0]]) None 19491001 one_epoch 0
     = Inr ([10, 10], Suc 0)
   \<and> sample constant_library [10 :: nat, 20, 30] 2 ''trn'' (Some [[0]]) None 19491001 one_epoch 7
     = Inr ([10, 10], Suc 0)"
proof -
  have "sample constant_library [10 :: nat, 20, 30] 2 ''trn'' (Some [[0]]) None 19491001
          one_epoch 0 = Inr ([10, 10], Suc 0)"
    by (simp add: sample_def example_trn take_indices_def)
  with sample_trn_independent_of_generator_state[of constant_library "[10 :: nat, 20, 30]" 2
         "Some [[0]]" None 19491001 one_epoch 7 0]
  show ?thesis by simp
qed

end
